theory Spec2Isabelle
  imports Complex_Main "HOL-Library.AList"
begin

section \<open>Python values used by the four shadow calculators\<close>

text \<open>
  The repository holds four scripts (CG, CL, DS, GE) that compute the noon shadow of a
  vertical obstacle. Every definition below carries the prefix of the script it is taken from.

  Python floats are idealised as real numbers: \<open>math.sin\<close>, \<open>math.cos\<close>, \<open>math.tan\<close>,
  \<open>+\<close>, \<open>*\<close> are the exact operations. The value \<open>float('inf')\<close> that the shadow-length
  functions return is kept apart from the finite values. The two exceptions the arithmetic can
  raise are values of \<open>error\<close>: \<open>math.asin\<close> raises \<open>ValueError\<close> outside \<open>[-1, 1]\<close>, float
  division raises \<open>ZeroDivisionError\<close> on a zero divisor.

  The real tangent has poles at odd multiples of \<open>pi / 2\<close>, where HOL gives \<open>tan x = 0\<close>; no
  float is such a multiple, so statements about the quotient \<open>h / tan x\<close> stay away from them.
\<close>

datatype error = ValueError | ZeroDivisionError

datatype pyfloat = Finite real | INFINITE

definition math_radians :: "real \<Rightarrow> real" where
  "math_radians x = x * (pi / 180)"

definition math_degrees :: "real \<Rightarrow> real" where
  "math_degrees x = x * (180 / pi)"

definition math_asin :: "real \<Rightarrow> error + real" where
  "math_asin x = (if - 1 \<le> x \<and> x \<le> 1 then Inr (arcsin x) else Inl ValueError)"

definition truediv :: "real \<Rightarrow> real \<Rightarrow> error + real" where
  "truediv a b = (if b = 0 then Inl ZeroDivisionError else Inr (a / b))"

text \<open>
  A \<open>dict\<close> keeps its keys in insertion order: an association list without repeated keys.
  \<open>d[k] = v\<close> overwrites the value of a key that is present, in place, and appends a new key.
\<close>

type_synonym ('k, 'v) dict = "('k \<times> 'v) list"

definition setitem :: "('k, 'v) dict \<Rightarrow> 'k \<Rightarrow> 'v \<Rightarrow> ('k, 'v) dict" where
  "setitem d k v = AList.update k v d"

definition keys :: "('k, 'v) dict \<Rightarrow> 'k list" where
  "keys d = map fst d"

text \<open>The labels of the four reference dates; the accented letters are Latin-1 code points.\<close>

definition solsticio_de_verao :: string where
  "solsticio_de_verao = ''Solst'' @ [CHR 0xED] @ ''cio de Ver'' @ [CHR 0xE3] @ ''o''"

definition equinocio_de_outono :: string where
  "equinocio_de_outono = ''Equin'' @ [CHR 0xF3] @ ''cio de Outono''"

definition solsticio_de_inverno :: string where
  "solsticio_de_inverno = ''Solst'' @ [CHR 0xED] @ ''cio de Inverno''"

definition equinocio_de_primavera :: string where
  "equinocio_de_primavera = ''Equin'' @ [CHR 0xF3] @ ''cio de Primavera''"


section \<open>CL: the class SolarShadowAnalyzer\<close>

record season_data =
  day :: int
  name :: string

record analyzer =
  latitude :: real
  longitude :: real
  obstacle_height :: real
  seasons :: "(string, season_data) dict"

definition CL_seasons :: "(string, season_data) dict" where
  "CL_seasons =
    [(solsticio_de_verao, \<lparr>day = 355, name = ''Ver'' @ [CHR 0xE3] @ ''o (21 Dez)''\<rparr>),
     (equinocio_de_outono, \<lparr>day = 80, name = ''Outono (21 Mar)''\<rparr>),
     (solsticio_de_inverno, \<lparr>day = 172, name = ''Inverno (21 Jun)''\<rparr>),
     (equinocio_de_primavera, \<lparr>day = 266, name = ''Primavera (23 Set)''\<rparr>)]"

definition CL_init :: "real \<Rightarrow> real \<Rightarrow> real \<Rightarrow> analyzer" where
  "CL_init lat lon h =
    \<lparr>latitude = lat, longitude = lon, obstacle_height = h, seasons = CL_seasons\<rparr>"

definition CL_dms_to_decimal :: "analyzer \<Rightarrow> real \<Rightarrow> real \<Rightarrow> real \<Rightarrow> string \<Rightarrow> real" where
  "CL_dms_to_decimal self degrees minutes seconds direction =
    (let decimal = degrees + minutes / 60 + seconds / 3600
     in if direction \<in> set [''S'', ''W''] then - decimal else decimal)"

definition CL_solar_declination :: "analyzer \<Rightarrow> int \<Rightarrow> real" where
  "CL_solar_declination self day_of_year =
    23.45 * sin (math_radians (real_of_int (360 * (284 + day_of_year)) / 365))"

definition CL_solar_hour_angle :: "analyzer \<Rightarrow> real \<Rightarrow> real" where
  "CL_solar_hour_angle self hour = 15 * (hour - 12)"

text \<open>\<open>hour_angle\<close> has the default 0 in the source; the seasonal loop relies on it.\<close>

definition CL_solar_elevation :: "analyzer \<Rightarrow> real \<Rightarrow> real \<Rightarrow> error + real" where
  "CL_solar_elevation self declination hour_angle =
    (let lat_rad = math_radians (latitude self);
         dec_rad = math_radians declination;
         hour_rad = math_radians hour_angle
     in case math_asin (sin lat_rad * sin dec_rad + cos lat_rad * cos dec_rad * cos hour_rad) of
          Inl e \<Rightarrow> Inl e
        | Inr elevation_rad \<Rightarrow> Inr (math_degrees elevation_rad))"

definition CL_shadow_length :: "analyzer \<Rightarrow> real \<Rightarrow> error + pyfloat" where
  "CL_shadow_length self solar_elevation_deg =
    (if solar_elevation_deg \<le> 0 then Inr INFINITE
     else let elevation_rad = math_radians solar_elevation_deg
          in case truediv (obstacle_height self) (tan elevation_rad) of
               Inl e \<Rightarrow> Inl e
             | Inr l \<Rightarrow> Inr (Finite l))"

text \<open>The entry stored under each season; the field \<open>res_x\<close> is the key \<open>'x'\<close> of the source.\<close>

record CL_result =
  res_declination :: real
  res_elevation :: real
  res_shadow_length :: pyfloat
  res_display_name :: string

fun CL_seasons_loop ::
  "analyzer \<Rightarrow> (string \<times> season_data) list \<Rightarrow> (string, CL_result) dict
    \<Rightarrow> error + (string, CL_result) dict" where
  "CL_seasons_loop self [] results = Inr results"
| "CL_seasons_loop self ((season, data) # rest) results =
    (let declination = CL_solar_declination self (day data)
     in case CL_solar_elevation self declination 0 of
          Inl e \<Rightarrow> Inl e
        | Inr elevation \<Rightarrow>
            (case CL_shadow_length self elevation of
               Inl e \<Rightarrow> Inl e
             | Inr shadow_len \<Rightarrow>
                 CL_seasons_loop self rest
                   (setitem results season
                     \<lparr>res_declination = declination, res_elevation = elevation,
                      res_shadow_length = shadow_len, res_display_name = name data\<rparr>)))"

definition CL_calculate_seasonal_shadows :: "analyzer \<Rightarrow> error + (string, CL_result) dict" where
  "CL_calculate_seasonal_shadows self = CL_seasons_loop self (seasons self) []"


section \<open>DS: module-level functions and loop\<close>

definition DS_graus_para_decimal :: "real \<Rightarrow> real \<Rightarrow> real \<Rightarrow> string \<Rightarrow> real" where
  "DS_graus_para_decimal graus minutos segundos direcao =
    (let decimal = graus + minutos / 60 + segundos / 3600
     in if direcao \<in> set [''S'', ''W''] then decimal * (- 1) else decimal)"

definition DS_calcular_declinacao_solar :: "int \<Rightarrow> real" where
  "DS_calcular_declinacao_solar dia_ano =
    23.45 * sin (math_radians (real_of_int (360 * (284 + dia_ano)) / 365))"

definition DS_calcular_elevacao_solar :: "real \<Rightarrow> real \<Rightarrow> real \<Rightarrow> error + real" where
  "DS_calcular_elevacao_solar lat declinacao angulo_horario =
    (let lat_rad = math_radians lat;
         dec_rad = math_radians declinacao
     in case math_asin (sin lat_rad * sin dec_rad
                         + cos lat_rad * cos dec_rad * cos (math_radians angulo_horario)) of
          Inl e \<Rightarrow> Inl e
        | Inr a \<Rightarrow> Inr (math_degrees a))"

definition DS_calcular_comprimento_sombra :: "real \<Rightarrow> real \<Rightarrow> error + pyfloat" where
  "DS_calcular_comprimento_sombra altura elevacao =
    (if elevacao \<le> 0 then Inr INFINITE
     else case truediv altura (tan (math_radians elevacao)) of
            Inl e \<Rightarrow> Inl e
          | Inr l \<Rightarrow> Inr (Finite l))"

record DS_info =
  info_data :: string
  info_dia_ano :: int

definition DS_datas_estacoes :: "(string, DS_info) dict" where
  "DS_datas_estacoes =
    [(solsticio_de_verao, \<lparr>info_data = ''2023-12-21'', info_dia_ano = 355\<rparr>),
     (solsticio_de_inverno, \<lparr>info_data = ''2023-06-21'', info_dia_ano = 172\<rparr>),
     (equinocio_de_primavera, \<lparr>info_data = ''2023-09-23'', info_dia_ano = 266\<rparr>),
     (equinocio_de_outono, \<lparr>info_data = ''2023-03-20'', info_dia_ano = 79\<rparr>)]"

record DS_result =
  res_declinacao :: real
  res_elevacao_solar :: real
  res_comprimento_sombra :: pyfloat
  res_data :: string

fun DS_resultados_loop ::
  "real \<Rightarrow> real \<Rightarrow> (string \<times> DS_info) list \<Rightarrow> (string, DS_result) dict
    \<Rightarrow> error + (string, DS_result) dict" where
  "DS_resultados_loop latitude_decimal altura_obstaculo [] resultados = Inr resultados"
| "DS_resultados_loop latitude_decimal altura_obstaculo ((estacao, info) # rest) resultados =
    (let declinacao = DS_calcular_declinacao_solar (info_dia_ano info)
     in case DS_calcular_elevacao_solar latitude_decimal declinacao 0 of
          Inl e \<Rightarrow> Inl e
        | Inr elevacao \<Rightarrow>
            (case DS_calcular_comprimento_sombra altura_obstaculo elevacao of
               Inl e \<Rightarrow> Inl e
             | Inr sombra \<Rightarrow>
                 DS_resultados_loop latitude_decimal altura_obstaculo rest
                   (setitem resultados estacao
                     \<lparr>res_declinacao = declinacao, res_elevacao_solar = elevacao,
                      res_comprimento_sombra = sombra, res_data = info_data info\<rparr>)))"

definition DS_resultados ::
  "real \<Rightarrow> real \<Rightarrow> (string, DS_info) dict \<Rightarrow> error + (string, DS_result) dict" where
  "DS_resultados latitude_decimal altura_obstaculo datas_estacoes =
    DS_resultados_loop latitude_decimal altura_obstaculo datas_estacoes []"


section \<open>GE: module-level functions and loop (angles in radians)\<close>

definition GE_dms_to_decimal :: "real \<Rightarrow> real \<Rightarrow> real \<Rightarrow> string \<Rightarrow> real" where
  "GE_dms_to_decimal degrees minutes seconds direction =
    (let decimal_degrees = degrees + minutes / 60 + seconds / 3600
     in if direction \<in> set [''S'', ''W''] then - decimal_degrees else decimal_degrees)"

definition GE_calculate_solar_declination :: "int \<Rightarrow> real" where
  "GE_calculate_solar_declination day_of_year =
    0.409 * sin (((2 * pi / 365) * real_of_int day_of_year) - 1.39)"

definition GE_calculate_hour_angle :: "real \<Rightarrow> real \<Rightarrow> real \<Rightarrow> real" where
  "GE_calculate_hour_angle local_time_decimal lon standard_meridian = 0"

definition GE_calculate_solar_elevation :: "real \<Rightarrow> real \<Rightarrow> real \<Rightarrow> error + real" where
  "GE_calculate_solar_elevation lat declination hour_angle =
    (let lat_rad = math_radians lat;
         sin_alpha = (sin lat_rad * sin declination)
                      + (cos lat_rad * cos declination * cos hour_angle);
         sin_alpha = max (- 1) (min 1 sin_alpha)
     in case math_asin sin_alpha of
          Inl e \<Rightarrow> Inl e
        | Inr elevation_rad \<Rightarrow> Inr (if elevation_rad > 0 then elevation_rad else 0))"

definition GE_calculate_shadow_length :: "real \<Rightarrow> real \<Rightarrow> error + pyfloat" where
  "GE_calculate_shadow_length h solar_elevation =
    (if solar_elevation \<le> 0 then Inr INFINITE
     else case truediv h (tan solar_elevation) of
            Inl e \<Rightarrow> Inl e
          | Inr l \<Rightarrow> Inr (Finite l))"

definition GE_seasons :: "(string, int) dict" where
  "GE_seasons =
    [(solsticio_de_verao @ '' (21 Dez)'', 355),
     (solsticio_de_inverno @ '' (21 Jun)'', 172),
     (equinocio_de_primavera @ '' (22 Set)'', 265),
     (equinocio_de_outono @ '' (20 Mar)'', 79)]"

record GE_details =
  declinacao_solar_graus :: real
  angulo_horario_solar_graus :: real
  elevacao_solar_graus :: real
  comprimento_da_sombra_m :: pyfloat

type_synonym GE_state = "(string, pyfloat) dict \<times> (string, GE_details) dict"

fun GE_seasons_loop ::
  "real \<Rightarrow> real \<Rightarrow> real \<Rightarrow> (string \<times> int) list \<Rightarrow> GE_state \<Rightarrow> error + GE_state" where
  "GE_seasons_loop lat lon h [] st = Inr st"
| "GE_seasons_loop lat lon h ((season, day_of_year) # rest) (shadow_results, calculation_details) =
    (let declination = GE_calculate_solar_declination day_of_year;
         hour_angle = GE_calculate_hour_angle 12.0 lon (- 45)
     in case GE_calculate_solar_elevation lat declination hour_angle of
          Inl e \<Rightarrow> Inl e
        | Inr solar_elevation \<Rightarrow>
            (case GE_calculate_shadow_length h solar_elevation of
               Inl e \<Rightarrow> Inl e
             | Inr shadow_len \<Rightarrow>
                 GE_seasons_loop lat lon h rest
                   (setitem shadow_results season shadow_len,
                    setitem calculation_details season
                      \<lparr>declinacao_solar_graus = math_degrees declination,
                       angulo_horario_solar_graus = math_degrees hour_angle,
                       elevacao_solar_graus = math_degrees solar_elevation,
                       comprimento_da_sombra_m = shadow_len\<rparr>)))"

definition GE_shadow_results ::
  "real \<Rightarrow> real \<Rightarrow> real \<Rightarrow> (string, int) dict \<Rightarrow> error + GE_state" where
  "GE_shadow_results lat lon h seasons_dict = GE_seasons_loop lat lon h seasons_dict ([], [])"


section \<open>CG: closed-form noon elevation, no guards\<close>

definition CG_days_in_month :: "int list" where
  "CG_days_in_month = [31, 28, 31, 30, 31, 30, 31, 31, 30, 31, 30, 31]"

text \<open>
  \<open>(datetime(2025, mes, dia) - datetime(2025, 1, 1)).days + 1\<close>: the constructor raises
  \<open>ValueError\<close> for a date that does not exist in 2025.
\<close>

definition CG_day_of_year :: "int \<Rightarrow> int \<Rightarrow> error + int" where
  "CG_day_of_year dia mes =
    (if 1 \<le> mes \<and> mes \<le> 12 \<and> 1 \<le> dia \<and> dia \<le> CG_days_in_month ! nat (mes - 1)
     then Inr (sum_list (take (nat (mes - 1)) CG_days_in_month) + (dia - 1) + 1)
     else Inl ValueError)"


definition CG_elevacao_solar :: "real \<Rightarrow> real \<Rightarrow> real" where
  "CG_elevacao_solar lat decl = 90 - \<bar>lat - decl\<bar>"

definition CG_comprimento_sombra :: "real \<Rightarrow> real \<Rightarrow> error + real" where
  "CG_comprimento_sombra altura elevacao_graus =
    (let elev_rad = math_radians elevacao_graus
     in truediv altura (tan elev_rad))"


section \<open>Degrees-minutes-seconds conversion\<close>

text \<open>
  C10. For every degrees, minutes, seconds and direction string, the three conversions
  (GE, CL, DS) return \<open>-(d + m/60 + s/3600)\<close> when the direction is \<open>S\<close> or \<open>W\<close>, and
  \<open>d + m/60 + s/3600\<close> for every other direction.
\<close>

theorem dms_to_decimal_sign:
  "GE_dms_to_decimal d m s dir =
     (if dir = ''S'' \<or> dir = ''W'' then - (d + m / 60 + s / 3600) else d + m / 60 + s / 3600)
   \<and> CL_dms_to_decimal self d m s dir =
     (if dir = ''S'' \<or> dir = ''W'' then - (d + m / 60 + s / 3600) else d + m / 60 + s / 3600)
   \<and> DS_graus_para_decimal d m s dir =
     (if dir = ''S'' \<or> dir = ''W'' then - (d + m / 60 + s / 3600) else d + m / 60 + s / 3600)"
  by (simp add: GE_dms_to_decimal_def CL_dms_to_decimal_def DS_graus_para_decimal_def Let_def)

section \<open>Noon elevation: the closed form and the inverse-sine form\<close>

lemma arcsin_cos_abs:
  assumes "\<bar>x\<bar> \<le> pi"
  shows "arcsin (cos x) = pi / 2 - \<bar>x\<bar>"
proof -
  have "cos x = cos \<bar>x\<bar>" by (simp add: abs_if)
  also have "\<dots> = sin (pi / 2 - \<bar>x\<bar>)" by (simp add: cos_sin_eq)
  finally have "arcsin (cos x) = arcsin (sin (pi / 2 - \<bar>x\<bar>))" by simp
  also have "\<dots> = pi / 2 - \<bar>x\<bar>"
    by (rule arcsin_sin) (use assms in auto)
  finally show ?thesis .
qed

lemma noon_argument:
  "sin a * sin b + cos a * cos b * cos (math_radians 0) = cos (a - b)"
  by (simp add: math_radians_def cos_diff)

lemma radians_diff: "math_radians x - math_radians y = math_radians (x - y)"
  by (simp add: math_radians_def algebra_simps)

lemma radians_abs: "\<bar>math_radians x\<bar> = math_radians \<bar>x\<bar>"
  by (simp add: math_radians_def abs_mult)

lemma degrees_noon: "math_degrees (pi / 2 - math_radians x) = 90 - x"
  by (simp add: math_degrees_def math_radians_def field_simps)

lemma radians_le_pi: "\<bar>x\<bar> \<le> 180 \<Longrightarrow> \<bar>math_radians x\<bar> \<le> pi"
  by (simp add: math_radians_def abs_mult field_simps)

lemma noon_elevation:
  assumes "\<bar>lat - decl\<bar> \<le> 180"
  shows "(case math_asin (sin (math_radians lat) * sin (math_radians decl)
            + cos (math_radians lat) * cos (math_radians decl) * cos (math_radians 0)) of
           Inl e \<Rightarrow> Inl e | Inr a \<Rightarrow> Inr (math_degrees a)) = Inr (90 - \<bar>lat - decl\<bar>)"
proof -
  have "arcsin (cos (math_radians (lat - decl))) = pi / 2 - \<bar>math_radians (lat - decl)\<bar>"
    by (rule arcsin_cos_abs) (rule radians_le_pi [OF assms])
  then show ?thesis
    by (simp add: noon_argument radians_diff math_asin_def radians_abs degrees_noon)
qed

lemma CL_noon_elevation:
  "\<bar>latitude self - decl\<bar> \<le> 180 \<Longrightarrow>
     CL_solar_elevation self decl 0 = Inr (90 - \<bar>latitude self - decl\<bar>)"
  unfolding CL_solar_elevation_def Let_def by (rule noon_elevation)

lemma DS_noon_elevation:
  "\<bar>lat - decl\<bar> \<le> 180 \<Longrightarrow>
     DS_calcular_elevacao_solar lat decl 0 = Inr (90 - \<bar>lat - decl\<bar>)"
  unfolding DS_calcular_elevacao_solar_def Let_def by (rule noon_elevation)

text \<open>
  C9. For latitude and declination in degrees with \<open>\<bar>lat - decl\<bar> \<le> 90\<close>, the closed form
  \<open>90 - \<bar>lat - decl\<bar>\<close> of CG is, in exact real arithmetic, the value that the inverse-sine
  elevation of CL and of DS returns at hour angle 0.
\<close>

theorem CG_closed_form_equals_asin_form:
  assumes "\<bar>lat - decl\<bar> \<le> 90"
  shows "CL_solar_elevation (self\<lparr>latitude := lat\<rparr>) decl 0 = Inr (CG_elevacao_solar lat decl)
       \<and> DS_calcular_elevacao_solar lat decl 0 = Inr (CG_elevacao_solar lat decl)"
  using assms by (simp add: CL_noon_elevation DS_noon_elevation CG_elevacao_solar_def)

theorem CG_closed_form_equals_asin_form_witness:
  "\<bar>(- 30) - 30\<bar> \<le> (90::real)
   \<and> CL_solar_elevation (CL_init (- 30) (- 48) 1.65) 30 0 = Inr 30
   \<and> DS_calcular_elevacao_solar (- 30) 30 0 = Inr 30"
  using CG_closed_form_equals_asin_form [of "- 30" 30 "CL_init (- 30) (- 48) 1.65"]
  by (simp add: CG_elevacao_solar_def CL_init_def)


section \<open>Shadow length at and below the horizon\<close>

lemma guarded_shadow_lengths:
  assumes "e \<le> 0"
  shows "CL_shadow_length self e = Inr INFINITE"
    and "DS_calcular_comprimento_sombra h e = Inr INFINITE"
    and "GE_calculate_shadow_length h e = Inr INFINITE"
  using assms
  by (simp_all add: CL_shadow_length_def DS_calcular_comprimento_sombra_def
      GE_calculate_shadow_length_def)

lemma radians_zero: "math_radians 0 = 0"
  by (simp add: math_radians_def)

lemma radians_minus_45: "math_radians (- 45) = - (pi / 4)"
  by (simp add: math_radians_def)

text \<open>
  C1. The claim: for every height and every elevation \<open>\<le> 0\<close> the shadow-length operation of
  each script, CG included, returns the INFINITE sentinel and never a computed quotient.
  CL, DS and GE do (\<open>guarded_shadow_lengths\<close>). \<open>comprimento_sombra\<close> of CG has no such
  branch: at elevation 0 the divisor \<open>tan 0\<close> is zero and the division raises, and at
  elevation \<open>-45\<close> it returns the computed quotient \<open>1.65 / tan (-pi/4) = -1.65\<close>.
\<close>

theorem CG_comprimento_sombra_unguarded:
  "CG_comprimento_sombra 1.65 0 = Inl ZeroDivisionError
   \<and> CG_comprimento_sombra 1.65 (- 45) = Inr (- 1.65)"
  by (simp add: CG_comprimento_sombra_def truediv_def radians_zero radians_minus_45 tan_45)


section \<open>The argument of the inverse sine\<close>












section \<open>The elevation formula\<close>












section \<open>Shadow length above the horizon\<close>

lemma radians_pos: "0 < e \<Longrightarrow> 0 < math_radians e"
  by (simp add: math_radians_def)

lemma radians_less_half_pi: "e < 90 \<Longrightarrow> math_radians e < pi / 2"
  by (simp add: math_radians_def field_simps)






section \<open>The seasonal loops\<close>

lemma keys_setitem:
  "keys (setitem d k v) = (if k \<in> set (keys d) then keys d else keys d @ [k])"
  by (simp add: keys_def setitem_def update_keys)

lemma CL_declination_bound: "\<bar>CL_solar_declination self d\<bar> \<le> 23.45"
proof -
  have "\<bar>sin (math_radians (real_of_int (360 * (284 + d)) / 365))\<bar> \<le> 1"
    by (rule abs_sin_le_one)
  then show ?thesis
    by (simp add: CL_solar_declination_def abs_mult)
qed

lemma DS_declination_bound: "\<bar>DS_calcular_declinacao_solar d\<bar> \<le> 23.45"
proof -
  have "\<bar>sin (math_radians (real_of_int (360 * (284 + d)) / 365))\<bar> \<le> 1"
    by (rule abs_sin_le_one)
  then show ?thesis
    by (simp add: DS_calcular_declinacao_solar_def abs_mult)
qed

lemma shadow_quotient_defined:
  assumes "0 < e" "e < 90"
  shows "truediv h (tan (math_radians e)) = Inr (h / tan (math_radians e))"
proof -
  have "0 < tan (math_radians e)"
    using assms by (intro tan_gt_zero radians_pos radians_less_half_pi)
  then show ?thesis by (simp add: truediv_def)
qed

lemma CL_shadow_defined: "e < 90 \<Longrightarrow> \<exists>l. CL_shadow_length self e = Inr l"
  by (cases "e \<le> 0") (simp_all add: CL_shadow_length_def Let_def shadow_quotient_defined)

lemma DS_shadow_defined: "e < 90 \<Longrightarrow> \<exists>l. DS_calcular_comprimento_sombra h e = Inr l"
  by (cases "e \<le> 0") (simp_all add: DS_calcular_comprimento_sombra_def shadow_quotient_defined)

text \<open>
  Outside the tropics the noon sun is never at the zenith, so no step of the loop fails:
  the elevation is below 90 degrees and the shadow is finite or the sentinel.
\<close>

lemma CL_step_defined:
  assumes "23.45 < \<bar>latitude self\<bar>" "\<bar>latitude self\<bar> \<le> 90"
  shows "\<exists>e l. CL_solar_elevation self (CL_solar_declination self d) 0 = Inr e
            \<and> CL_shadow_length self e = Inr l"
proof -
  let ?d = "CL_solar_declination self d"
  have b: "\<bar>?d\<bar> \<le> 23.45" by (rule CL_declination_bound)
  have "\<bar>latitude self - ?d\<bar> \<le> 180" using assms b by linarith
  then have e: "CL_solar_elevation self ?d 0 = Inr (90 - \<bar>latitude self - ?d\<bar>)"
    by (rule CL_noon_elevation)
  have "90 - \<bar>latitude self - ?d\<bar> < 90" using assms b by linarith
  then obtain l where "CL_shadow_length self (90 - \<bar>latitude self - ?d\<bar>) = Inr l"
    using CL_shadow_defined by blast
  with e show ?thesis by blast
qed

lemma DS_step_defined:
  assumes "23.45 < \<bar>lat\<bar>" "\<bar>lat\<bar> \<le> 90"
  shows "\<exists>e l. DS_calcular_elevacao_solar lat (DS_calcular_declinacao_solar d) 0 = Inr e
            \<and> DS_calcular_comprimento_sombra h e = Inr l"
proof -
  let ?d = "DS_calcular_declinacao_solar d"
  have b: "\<bar>?d\<bar> \<le> 23.45" by (rule DS_declination_bound)
  have "\<bar>lat - ?d\<bar> \<le> 180" using assms b by linarith
  then have e: "DS_calcular_elevacao_solar lat ?d 0 = Inr (90 - \<bar>lat - ?d\<bar>)"
    by (rule DS_noon_elevation)
  have "90 - \<bar>lat - ?d\<bar> < 90" using assms b by linarith
  then obtain l where "DS_calcular_comprimento_sombra h (90 - \<bar>lat - ?d\<bar>) = Inr l"
    using DS_shadow_defined by blast
  with e show ?thesis by blast
qed

lemma CL_loop_total:
  assumes "23.45 < \<bar>latitude self\<bar>" "\<bar>latitude self\<bar> \<le> 90"
  shows "\<exists>r. CL_seasons_loop self pts acc = Inr r"
proof (induction pts arbitrary: acc)
  case Nil
  show ?case by simp
next
  case (Cons p pts)
  obtain season data where p: "p = (season, data)" by (cases p)
  obtain e l where "CL_solar_elevation self (CL_solar_declination self (day data)) 0 = Inr e"
    and "CL_shadow_length self e = Inr l"
    using CL_step_defined [OF assms] by blast
  then show ?case using Cons.IH by (simp add: p)
qed

lemma DS_loop_total:
  assumes "23.45 < \<bar>lat\<bar>" "\<bar>lat\<bar> \<le> 90"
  shows "\<exists>r. DS_resultados_loop lat h pts acc = Inr r"
proof (induction pts arbitrary: acc)
  case Nil
  show ?case by simp
next
  case (Cons p pts)
  obtain estacao info where p: "p = (estacao, info)" by (cases p)
  obtain e l where
    "DS_calcular_elevacao_solar lat (DS_calcular_declinacao_solar (info_dia_ano info)) 0 = Inr e"
    and "DS_calcular_comprimento_sombra h e = Inr l"
    using DS_step_defined [OF assms] by blast
  then show ?case using Cons.IH by (simp add: p)
qed

text \<open>Each step stores under a label not seen before, so the labels pile up in input order.\<close>

lemma CL_loop_keys:
  assumes "CL_seasons_loop self pts acc = Inr r" "distinct (keys pts)"
    "set (keys pts) \<inter> set (keys acc) = {}"
  shows "keys r = keys acc @ keys pts"
  using assms
proof (induction pts arbitrary: acc)
  case Nil
  then show ?case by (simp add: keys_def)
next
  case (Cons p pts)
  obtain season data where p: "p = (season, data)" by (cases p)
  from Cons.prems(1) obtain v where
    run: "CL_seasons_loop self pts (setitem acc season v) = Inr r"
    by (auto simp: p Let_def split: sum.splits)
  have kp: "keys (p # pts) = season # keys pts" by (simp add: p keys_def)
  have fresh: "season \<notin> set (keys acc)" "season \<notin> set (keys pts)" "distinct (keys pts)"
    using Cons.prems(2,3) unfolding kp by auto
  have k: "keys (setitem acc season v) = keys acc @ [season]"
    using fresh by (simp add: keys_setitem)
  have "set (keys pts) \<inter> set (keys (setitem acc season v)) = {}"
    using Cons.prems(3) fresh unfolding k kp by auto
  from Cons.IH [OF run fresh(3) this] show ?case
    unfolding k kp by simp
qed

lemma DS_loop_keys:
  assumes "DS_resultados_loop lat h pts acc = Inr r" "distinct (keys pts)"
    "set (keys pts) \<inter> set (keys acc) = {}"
  shows "keys r = keys acc @ keys pts"
  using assms
proof (induction pts arbitrary: acc)
  case Nil
  then show ?case by (simp add: keys_def)
next
  case (Cons p pts)
  obtain estacao info where p: "p = (estacao, info)" by (cases p)
  from Cons.prems(1) obtain v where
    run: "DS_resultados_loop lat h pts (setitem acc estacao v) = Inr r"
    by (auto simp: p Let_def split: sum.splits)
  have kp: "keys (p # pts) = estacao # keys pts" by (simp add: p keys_def)
  have fresh: "estacao \<notin> set (keys acc)" "estacao \<notin> set (keys pts)" "distinct (keys pts)"
    using Cons.prems(2,3) unfolding kp by auto
  have k: "keys (setitem acc estacao v) = keys acc @ [estacao]"
    using fresh by (simp add: keys_setitem)
  have "set (keys pts) \<inter> set (keys (setitem acc estacao v)) = {}"
    using Cons.prems(3) fresh unfolding k kp by auto
  from Cons.IH [OF run fresh(3) this] show ?case
    unfolding k kp by simp
qed

lemma GE_loop_keys:
  assumes "GE_seasons_loop lat lon h pts (sr, cd) = Inr (sr', cd')" "distinct (keys pts)"
    "set (keys pts) \<inter> set (keys sr) = {}" "set (keys pts) \<inter> set (keys cd) = {}"
  shows "keys sr' = keys sr @ keys pts \<and> keys cd' = keys cd @ keys pts"
  using assms
proof (induction pts arbitrary: sr cd)
  case Nil
  then show ?case by (simp add: keys_def)
next
  case (Cons p pts)
  obtain season d where p: "p = (season, d)" by (cases p)
  from Cons.prems(1) obtain v w where
    run: "GE_seasons_loop lat lon h pts (setitem sr season v, setitem cd season w)
            = Inr (sr', cd')"
    by (auto simp: p Let_def split: sum.splits)
  have kp: "keys (p # pts) = season # keys pts" by (simp add: p keys_def)
  have fresh: "season \<notin> set (keys sr)" "season \<notin> set (keys cd)"
    "season \<notin> set (keys pts)" "distinct (keys pts)"
    using Cons.prems(2,3,4) unfolding kp by auto
  have k: "keys (setitem sr season v) = keys sr @ [season]"
    "keys (setitem cd season w) = keys cd @ [season]"
    using fresh by (simp_all add: keys_setitem)
  have "set (keys pts) \<inter> set (keys (setitem sr season v)) = {}"
    "set (keys pts) \<inter> set (keys (setitem cd season w)) = {}"
    using Cons.prems(3,4) fresh unfolding k kp by auto
  from Cons.IH [OF run fresh(4) this] show ?case
    unfolding k kp by simp
qed

lemma GE_results_keys:
  assumes "GE_shadow_results lat lon h ss = Inr (sr, cd)" "distinct (keys ss)"
  shows "keys sr = keys ss \<and> keys cd = keys ss"
  using GE_loop_keys [of lat lon h ss "[]" "[]" sr cd] assms
  by (simp add: GE_shadow_results_def keys_def)

lemma label_keys:
  "distinct (keys CL_seasons)" "distinct (keys DS_datas_estacoes)"
  by (simp_all add: keys_def CL_seasons_def DS_datas_estacoes_def solsticio_de_verao_def
      equinocio_de_outono_def solsticio_de_inverno_def equinocio_de_primavera_def)

text \<open>
  C7. For every dictionary of reference points (labels are unique, as the keys of a
  \<open>dict\<close> are), the labels of the output of the seasonal-shadows computation are the
  labels of the input in the same order, whatever the computed values: in
  \<open>calculate_seasonal_shadows\<close> of CL and in the \<open>resultados\<close> loop of DS.
\<close>

theorem seasonal_shadows_keep_input_order:
  "(distinct (keys (seasons self)) \<and> CL_calculate_seasonal_shadows self = Inr r
      \<longrightarrow> keys r = keys (seasons self))
   \<and> (distinct (keys datas_estacoes) \<and> DS_resultados lat h datas_estacoes = Inr rd
      \<longrightarrow> keys rd = keys datas_estacoes)"
  using CL_loop_keys [of self "seasons self" "[]" r]
    DS_loop_keys [of lat h datas_estacoes "[]" rd]
  by (simp add: CL_calculate_seasonal_shadows_def DS_resultados_def keys_def)

theorem seasonal_shadows_keep_input_order_witness:
  "distinct (keys (seasons (CL_init (- 30) (- 48) 1.65)))
   \<and> (\<exists>r. CL_calculate_seasonal_shadows (CL_init (- 30) (- 48) 1.65) = Inr r
         \<and> keys r = keys (seasons (CL_init (- 30) (- 48) 1.65)))
   \<and> distinct (keys DS_datas_estacoes)
   \<and> (\<exists>rd. DS_resultados (- 30) 1.65 DS_datas_estacoes = Inr rd
         \<and> keys rd = keys DS_datas_estacoes)"
proof -
  let ?s = "CL_init (- 30) (- 48) 1.65"
  have lat: "23.45 < \<bar>latitude ?s\<bar>" "\<bar>latitude ?s\<bar> \<le> 90"
    "(23.45::real) < \<bar>- 30\<bar>" "\<bar>- 30 :: real\<bar> \<le> 90"
    by (simp_all add: CL_init_def)
  have d: "distinct (keys (seasons ?s))" "distinct (keys DS_datas_estacoes)"
    using label_keys by (simp_all add: CL_init_def)
  obtain r where r: "CL_calculate_seasonal_shadows ?s = Inr r"
    using CL_loop_total [OF lat(1,2)] unfolding CL_calculate_seasonal_shadows_def by blast
  obtain rd where rd: "DS_resultados (- 30) 1.65 DS_datas_estacoes = Inr rd"
    using DS_loop_total [OF lat(3,4)] unfolding DS_resultados_def by blast
  from seasonal_shadows_keep_input_order [of ?s r DS_datas_estacoes "- 30" "1.65" rd] d r rd
  show ?thesis by blast
qed






section \<open>Solstice shadows at the reference site\<close>

text \<open>
  Bounds on \<open>pi\<close>, on the cosine and on the tangent of small angles, enough to place the
  two solstice shadows of the site (latitude \<open>-21.74\<close>, height 1.65 m).
\<close>

lemma pi_ge_three: "3 \<le> pi"
proof -
  have "sin (pi / 6) \<le> pi / 6" by (rule sin_x_le_x) simp
  then show ?thesis by (simp add: sin_30)
qed

lemma cos_lower: "1 - x\<^sup>2 / 2 \<le> cos (x::real)"
proof -
  have "\<bar>sin (x / 2)\<bar> \<le> \<bar>x / 2\<bar>" by (rule abs_sin_x_le_abs_x)
  then have "(sin (x / 2))\<^sup>2 \<le> (x / 2)\<^sup>2"
    by (metis abs_le_square_iff)
  moreover have "cos x = 1 - 2 * (sin (x / 2))\<^sup>2"
    using cos_double_sin [of "x / 2"] by simp
  ultimately show ?thesis by (simp add: power2_eq_square field_simps)
qed

lemma sin_lower:
  assumes "0 \<le> (x::real)"
  shows "x - x ^ 3 / 6 \<le> sin x"
proof -
  have "\<bar>sin x - (\<Sum>m<3. sin_coeff m * x ^ m)\<bar> \<le> inverse (fact 3) * \<bar>x\<bar> ^ 3"
    by (rule Maclaurin_sin_bound)
  moreover have "(\<Sum>m<3. sin_coeff m * x ^ m) = x"
    by (simp add: sin_coeff_def lessThan_Suc numeral_3_eq_3)
  moreover have "inverse (fact 3) * \<bar>x\<bar> ^ 3 = x ^ 3 / 6"
    using assms by (simp add: fact_numeral)
  ultimately have "\<bar>sin x - x\<bar> \<le> x ^ 3 / 6" by simp
  then show ?thesis by linarith
qed

lemma small_square:
  fixes t :: real
  assumes "0 \<le> t" "t \<le> 1 / 10"
  shows "t\<^sup>2 \<le> 1 / 100"
proof -
  have "t\<^sup>2 \<le> (1 / 10)\<^sup>2" using assms(2,1) by (rule power_mono)
  also have "(1 / 10 :: real)\<^sup>2 = 1 / 100" by (simp add: power2_eq_square)
  finally show ?thesis .
qed

lemma small_cos:
  fixes t :: real
  assumes "0 \<le> t" "t \<le> 1 / 10"
  shows "99 / 100 \<le> cos t"
  using cos_lower [of t] small_square [OF assms] by linarith

lemma tan_small_upper:
  fixes t :: real
  assumes "0 \<le> t" "t \<le> 1 / 10"
  shows "tan t \<le> t * (100 / 99)"
proof -
  have c: "99 / 100 \<le> cos t" using assms by (rule small_cos)
  then have c0: "0 \<le> cos t" by linarith
  have s: "sin t \<le> t" using assms(1) by (rule sin_x_le_x)
  have "tan t = sin t / cos t" by (simp add: tan_def)
  also have "\<dots> \<le> t / cos t" using s c0 by (rule divide_right_mono)
  also have "\<dots> \<le> t / (99 / 100)"
  proof (rule divide_left_mono)
    show "99 / 100 \<le> cos t" by (rule c)
    show "0 \<le> t" by (rule assms(1))
    show "0 < cos t * (99 / 100)" using c by simp
  qed
  finally show ?thesis by simp
qed

lemma tan_small_lower:
  fixes t :: real
  assumes "0 \<le> t" "t \<le> 1 / 10"
  shows "t * (99 / 100) \<le> tan t"
proof -
  have c: "99 / 100 \<le> cos t" using assms by (rule small_cos)
  have "t ^ 3 = t * t\<^sup>2" by (simp add: power3_eq_cube power2_eq_square)
  also have "\<dots> \<le> t * (1 / 100)"
    using small_square [OF assms] assms(1) by (rule mult_left_mono)
  finally have cube: "t ^ 3 \<le> t * (1 / 100)" .
  have "t - t ^ 3 / 6 \<le> sin t" using assms(1) by (rule sin_lower)
  with cube have s: "t * (99 / 100) \<le> sin t" using assms(1) by linarith
  then have s0: "0 \<le> sin t" using assms(1) by linarith
  have "sin t / 1 \<le> sin t / cos t"
  proof (rule divide_left_mono)
    show "cos t \<le> 1" by (rule cos_le_one)
    show "0 \<le> sin t" by (rule s0)
    show "0 < 1 * cos t" using c by simp
  qed
  then have "sin t \<le> tan t" by (simp add: tan_def)
  with s show ?thesis by linarith
qed

lemma cos_pi_730: "9999 / 10000 \<le> cos (pi / 730)"
proof -
  have "(pi / 730)\<^sup>2 \<le> (4 / 730)\<^sup>2"
    using pi_less_4 by (intro power_mono) auto
  also have "(4 / 730 :: real)\<^sup>2 \<le> 2 / 10000" by (simp add: power2_eq_square)
  finally show ?thesis using cos_lower [of "pi / 730"] by linarith
qed

lemma CL_declination_172: "CL_solar_declination self 172 = 23.45 * cos (pi / 730)"
proof -
  have "math_radians (real_of_int (360 * (284 + 172)) / 365) = (pi / 2 - pi / 730) + 2 * pi"
    by (simp add: math_radians_def)
  then have "sin (math_radians (real_of_int (360 * (284 + 172)) / 365)) = sin (pi / 2 - pi / 730)"
    by (simp only: sin_periodic)
  also have "\<dots> = cos (pi / 730)" by (simp add: cos_sin_eq)
  finally show ?thesis by (simp add: CL_solar_declination_def)
qed

lemma CL_declination_355: "CL_solar_declination self 355 = - (23.45 * cos (pi / 730))"
proof -
  have "math_radians (real_of_int (360 * (284 + 355)) / 365)
          = ((pi / 2 - (- (pi / 730))) + pi) + 2 * pi"
    by (simp add: math_radians_def)
  then have "sin (math_radians (real_of_int (360 * (284 + 355)) / 365))
          = sin ((pi / 2 - (- (pi / 730))) + pi)"
    by (simp only: sin_periodic)
  also have "\<dots> = - sin (pi / 2 - (- (pi / 730)))" by (simp only: sin_periodic_pi)
  also have "\<dots> = - cos (- (pi / 730))" by (simp add: cos_sin_eq)
  finally show ?thesis by (simp add: CL_solar_declination_def)
qed

lemma CL_noon_shadow:
  assumes "0 < a" "a < 90"
  shows "CL_shadow_length self (90 - a)
           = Inr (Finite (obstacle_height self * tan (math_radians a)))"
proof -
  have pos: "0 < tan (math_radians a)"
    using assms by (intro tan_gt_zero radians_pos radians_less_half_pi)
  have "math_radians (90 - a) = pi / 2 - math_radians a"
    by (simp add: math_radians_def field_simps)
  then have t: "tan (math_radians (90 - a)) = inverse (tan (math_radians a))"
    by (simp only: tan_cot)
  show ?thesis
    using assms pos by (simp add: CL_shadow_length_def Let_def truediv_def t field_simps)
qed


lemma tan_near_quarter_pi: "tan (pi / 4 + 19 / 4500) \<le> 101 / 100"
proof -
  let ?t = "19 / 4500 :: real"
  have up: "tan ?t \<le> ?t * (100 / 99)" by (rule tan_small_upper) simp_all
  have lo: "?t * (99 / 100) \<le> tan ?t" by (rule tan_small_lower) simp_all
  have c1: "cos (pi / 4) \<noteq> 0" by (simp add: cos_45)
  have "0 < cos ?t" by (rule cos_gt_zero) (use pi_ge_three in simp_all)
  then have c2: "cos ?t \<noteq> 0" by simp
  have "0 < cos (pi / 4 + ?t)" by (rule cos_gt_zero) (use pi_ge_three in simp_all)
  then have c3: "cos (pi / 4 + ?t) \<noteq> 0" by simp
  have "tan (pi / 4 + ?t) = (tan (pi / 4) + tan ?t) / (1 - tan (pi / 4) * tan ?t)"
    using c1 c2 c3 by (rule tan_add)
  also have "\<dots> = (1 + tan ?t) / (1 - tan ?t)" by (simp add: tan_45)
  also have "\<dots> \<le> 101 / 100"
    using up lo by (simp add: field_simps)
  finally show ?thesis .
qed

lemma solstice_angle_bounds:
  fixes c :: real
  assumes "9999 / 10000 \<le> c" "c \<le> 1"
  shows "45 < 21.74 + 23.45 * c" "21.74 + 23.45 * c \<le> 45.19"
    "0 < 21.74 + 23.45 * c" "21.74 + 23.45 * c < 90"
    "17 / 10 \<le> 23.45 * c - 21.74" "23.45 * c - 21.74 \<le> 1.71"
    "0 < 23.45 * c - 21.74" "23.45 * c - 21.74 < 90"
  using assms by simp_all

lemmas winter_angle = solstice_angle_bounds(1,2) [OF cos_pi_730 cos_le_one]
lemmas winter_bounds = solstice_angle_bounds(3,4) [OF cos_pi_730 cos_le_one]
lemmas summer_angle = solstice_angle_bounds(5,6) [OF cos_pi_730 cos_le_one]
lemmas summer_bounds = solstice_angle_bounds(7,8) [OF cos_pi_730 cos_le_one]

lemma winter_tan:
  "1 < tan (math_radians (21.74 + 23.45 * cos (pi / 730)))"
  "tan (math_radians (21.74 + 23.45 * cos (pi / 730))) \<le> 101 / 100"
proof -
  let ?a = "21.74 + 23.45 * cos (pi / 730) :: real"
  have lo: "pi / 4 < math_radians ?a"
    using winter_angle(1) by (simp add: math_radians_def field_simps)
  have "?a * pi \<le> 45.19 * pi" using winter_angle(2) by (intro mult_right_mono) auto
  also have "\<dots> = 45 * pi + 0.19 * pi" by simp
  also have "\<dots> \<le> 45 * pi + 0.19 * 4" using pi_less_4 by simp
  finally have up: "math_radians ?a \<le> pi / 4 + 19 / 4500"
    by (simp add: math_radians_def field_simps)
  have y: "pi / 4 + 19 / 4500 < pi / 2" using pi_ge_three by simp
  have "tan (pi / 4) < tan (math_radians ?a)"
    by (rule tan_monotone) (use lo up y in simp_all)
  then show "1 < tan (math_radians ?a)" by (simp add: tan_45)
  have "tan (math_radians ?a) \<le> tan (pi / 4 + 19 / 4500)"
    by (rule tan_mono_le) (use lo up y in simp_all)
  then show "tan (math_radians ?a) \<le> 101 / 100"
    using tan_near_quarter_pi by linarith
qed

lemma summer_tan:
  "28 / 1000 \<le> tan (math_radians (23.45 * cos (pi / 730) - 21.74))"
  "tan (math_radians (23.45 * cos (pi / 730) - 21.74)) \<le> 39 / 1000"
proof -
  let ?a = "23.45 * cos (pi / 730) - 21.74 :: real"
  have "17 / 10 * 3 \<le> ?a * pi"
    using summer_angle(1) pi_ge_three by (intro mult_mono) auto
  then have lo: "283 / 10000 \<le> math_radians ?a"
    by (simp add: math_radians_def field_simps)
  have "?a * pi \<le> 1.71 * 4"
    using summer_angle pi_less_4 by (intro mult_mono) auto
  then have up: "math_radians ?a \<le> 38 / 1000"
    by (simp add: math_radians_def field_simps)
  have r: "0 \<le> math_radians ?a" "math_radians ?a \<le> 1 / 10" using lo up by simp_all
  from tan_small_lower [OF r] lo show "28 / 1000 \<le> tan (math_radians ?a)" by linarith
  from tan_small_upper [OF r] up show "tan (math_radians ?a) \<le> 39 / 1000" by linarith
qed


lemma CL_noon_chain:
  assumes "latitude self - CL_solar_declination self d = x" "0 < \<bar>x\<bar>" "\<bar>x\<bar> < 90"
  shows "CL_solar_elevation self (CL_solar_declination self d) 0 = Inr (90 - \<bar>x\<bar>)"
    and "CL_shadow_length self (90 - \<bar>x\<bar>)
           = Inr (Finite (obstacle_height self * tan (math_radians \<bar>x\<bar>)))"
proof -
  have "\<bar>latitude self - CL_solar_declination self d\<bar> \<le> 180"
    using assms(1,3) by simp
  from CL_noon_elevation [OF this] assms(1)
  show "CL_solar_elevation self (CL_solar_declination self d) 0 = Inr (90 - \<bar>x\<bar>)"
    by simp
  from assms(2,3)
  show "CL_shadow_length self (90 - \<bar>x\<bar>)
           = Inr (Finite (obstacle_height self * tan (math_radians \<bar>x\<bar>)))"
    by (rule CL_noon_shadow)
qed

lemma site_winter_chain:
  "CL_solar_elevation (CL_init (- 21.74) lon 1.65)
      (CL_solar_declination (CL_init (- 21.74) lon 1.65) 172) 0
     = Inr (68.26 - 23.45 * cos (pi / 730))"
  "CL_shadow_length (CL_init (- 21.74) lon 1.65) (68.26 - 23.45 * cos (pi / 730))
     = Inr (Finite (1.65 * tan (math_radians (21.74 + 23.45 * cos (pi / 730)))))"
proof -
  let ?s = "CL_init (- 21.74) lon 1.65"
  let ?a = "21.74 + 23.45 * cos (pi / 730) :: real"
  have x: "latitude ?s - CL_solar_declination ?s 172 = - ?a"
    by (simp add: CL_init_def CL_declination_172)
  have ax: "\<bar>- ?a\<bar> = ?a" using winter_bounds(1) by (simp only: abs_minus_cancel abs_of_pos)
  have e: "90 - ?a = 68.26 - 23.45 * cos (pi / 730)" by simp
  have h: "obstacle_height ?s = 1.65" by (simp add: CL_init_def)
  note c = CL_noon_chain [OF x, unfolded ax, OF winter_bounds]
  show "CL_solar_elevation ?s (CL_solar_declination ?s 172) 0
          = Inr (68.26 - 23.45 * cos (pi / 730))"
    using c(1) unfolding e .
  show "CL_shadow_length ?s (68.26 - 23.45 * cos (pi / 730))
          = Inr (Finite (1.65 * tan (math_radians ?a)))"
    using c(2) unfolding e h .
qed

lemma site_summer_chain:
  "CL_solar_elevation (CL_init (- 21.74) lon 1.65)
      (CL_solar_declination (CL_init (- 21.74) lon 1.65) 355) 0
     = Inr (111.74 - 23.45 * cos (pi / 730))"
  "CL_shadow_length (CL_init (- 21.74) lon 1.65) (111.74 - 23.45 * cos (pi / 730))
     = Inr (Finite (1.65 * tan (math_radians (23.45 * cos (pi / 730) - 21.74))))"
proof -
  let ?s = "CL_init (- 21.74) lon 1.65"
  let ?a = "23.45 * cos (pi / 730) - 21.74 :: real"
  have x: "latitude ?s - CL_solar_declination ?s 355 = ?a"
    by (simp add: CL_init_def CL_declination_355)
  have ax: "\<bar>?a\<bar> = ?a" using summer_bounds(1) by (simp only: abs_of_pos)
  have e: "90 - ?a = 111.74 - 23.45 * cos (pi / 730)" by simp
  have h: "obstacle_height ?s = 1.65" by (simp add: CL_init_def)
  note c = CL_noon_chain [OF x, unfolded ax, OF summer_bounds]
  show "CL_solar_elevation ?s (CL_solar_declination ?s 355) 0
          = Inr (111.74 - 23.45 * cos (pi / 730))"
    using c(1) unfolding e .
  show "CL_shadow_length ?s (111.74 - 23.45 * cos (pi / 730))
          = Inr (Finite (1.65 * tan (math_radians ?a)))"
    using c(2) unfolding e h .
qed

text \<open>
  C5, as stated: at latitude \<open>-21.74\<close> with height 1.65 m, Cooper's declination in degrees
  and the inverse-sine elevation at hour angle 0 give a shadow of 5.5 to 6.3 m on day 172
  and of 1.5 to 2.0 m on day 355. The chain of CL at that site returns the elevation
  \<open>68.26 - 23.45 cos (pi/730)\<close> degrees (about 44.81) and a shadow below 5.5 m on day 172,
  and the elevation \<open>111.74 - 23.45 cos (pi/730)\<close> degrees (about 88.29) and a shadow below
  1.5 m on day 355.
\<close>

theorem site_solstice_shadows_below_bands:
  "CL_solar_elevation (CL_init (- 21.74) (- 48.1) 1.65)
      (CL_solar_declination (CL_init (- 21.74) (- 48.1) 1.65) 172) 0
     = Inr (68.26 - 23.45 * cos (pi / 730))
   \<and> CL_shadow_length (CL_init (- 21.74) (- 48.1) 1.65) (68.26 - 23.45 * cos (pi / 730))
     = Inr (Finite (1.65 * tan (math_radians (21.74 + 23.45 * cos (pi / 730)))))
   \<and> 1.65 * tan (math_radians (21.74 + 23.45 * cos (pi / 730))) < 5.5
   \<and> CL_solar_elevation (CL_init (- 21.74) (- 48.1) 1.65)
      (CL_solar_declination (CL_init (- 21.74) (- 48.1) 1.65) 355) 0
     = Inr (111.74 - 23.45 * cos (pi / 730))
   \<and> CL_shadow_length (CL_init (- 21.74) (- 48.1) 1.65) (111.74 - 23.45 * cos (pi / 730))
     = Inr (Finite (1.65 * tan (math_radians (23.45 * cos (pi / 730) - 21.74))))
   \<and> 1.65 * tan (math_radians (23.45 * cos (pi / 730) - 21.74)) < 1.5"
  using site_winter_chain [of "- 48.1"] site_summer_chain [of "- 48.1"]
    winter_tan(2) summer_tan(2)
  by simp

text \<open>
  C5, amended. At latitude \<open>-21.74\<close> with height 1.65 m, Cooper's declination in degrees and
  the inverse-sine elevation at hour angle 0 give a finite shadow between 1.65 m and 1.67 m
  on day 172 (winter solstice) and between 0.04 m and 0.07 m on day 355 (summer solstice).
\<close>

theorem site_solstice_shadows:
  "(\<exists>e L. CL_solar_elevation (CL_init (- 21.74) lon 1.65)
              (CL_solar_declination (CL_init (- 21.74) lon 1.65) 172) 0 = Inr e
        \<and> CL_shadow_length (CL_init (- 21.74) lon 1.65) e = Inr (Finite L)
        \<and> 1.65 < L \<and> L < 1.67)
   \<and> (\<exists>e L. CL_solar_elevation (CL_init (- 21.74) lon 1.65)
              (CL_solar_declination (CL_init (- 21.74) lon 1.65) 355) 0 = Inr e
        \<and> CL_shadow_length (CL_init (- 21.74) lon 1.65) e = Inr (Finite L)
        \<and> 0.04 < L \<and> L < 0.07)"
proof -
  have w: "1.65 < 1.65 * tan (math_radians (21.74 + 23.45 * cos (pi / 730)))"
    "1.65 * tan (math_radians (21.74 + 23.45 * cos (pi / 730))) < 1.67"
    using winter_tan by simp_all
  have s: "0.04 < 1.65 * tan (math_radians (23.45 * cos (pi / 730) - 21.74))"
    "1.65 * tan (math_radians (23.45 * cos (pi / 730) - 21.74)) < 0.07"
    using summer_tan by simp_all
  show ?thesis
    using site_winter_chain [of lon] site_summer_chain [of lon] w s by blast
qed


section \<open>The declination formulas\<close>








lemma CG_solstice_days:
  "CG_day_of_year 21 6 = Inr 172" "CG_day_of_year 21 12 = Inr 355"
  "CG_day_of_year 20 3 = Inr 79" "CG_day_of_year 22 9 = Inr 265"
  "CG_day_of_year 29 2 = Inl ValueError"
  by (simp_all add: CG_day_of_year_def CG_days_in_month_def)

end
